theory Spec2Isabelle
  imports Complex_Main
begin

section \<open>The slide converter of \<^verbatim>\<open>app.py\<close>\<close>

text \<open>
  The program is a Flask handler \<^verbatim>\<open>convert\<close> that reads a JSON body, validates it and
  hands the list of image URLs to one of three renderers (PDF, PowerPoint, ZIP). Each
  renderer downloads the images one by one and feeds them to a container library. A
  background thread, \<^verbatim>\<open>cleanup_resources\<close>, releases the temporary files and buffers that
  the requests registered.

  The embedding follows the source function by function. What the source cannot decide
  by itself is a field of the record \<open>world\<close>:
  \<^item> the answer of the network to the \<open>k\<close>-th call of \<^verbatim>\<open>download_image\<close>;
  \<^item> the outcome of the private attribute access of line 147;
  \<^item> whether releasing a registered resource raises.
  Every \<^verbatim>\<open>try\<close> of the source is followed into its handler: an image that cannot be
  written as JPEG raises in \<^verbatim>\<open>image.save\<close> and is skipped like a failed download, and
  \<^verbatim>\<open>send_file\<close> raises on a download name with a line break. The calls on the PDF canvas,
  the slides and the archive writer return normally, and what they build is kept as a
  symbolic value (the calls made on the canvas, the entries written to the archive, the
  image expression handed to the encoder).

  The handler starts from the JSON value that \<^verbatim>\<open>request.get_json()\<close> returned. Numbers are
  integers and strings are ASCII. Logging is not modelled. The clock does not advance
  while one request is served.
\<close>

subsection \<open>JSON values and the Python operations applied to them\<close>

datatype json =
    JNull
  | JBool bool
  | JNum int
  | JStr string
  | JArr "json list"
  | JObj "(string \<times> json) list"

text \<open>An object is an association list with one entry per key, as the parsed \<^verbatim>\<open>dict\<close>.\<close>

datatype py_exn =
    AttributeError
  | TypeError
  | IndexError
  | KeyError
  | UnboundLocalError
  | ValueError
  | Download_failed

text \<open>\<^verbatim>\<open>bool(v)\<close>, as \<^verbatim>\<open>if not data\<close> and \<^verbatim>\<open>if not images\<close> use it.\<close>

fun truthy :: "json \<Rightarrow> bool" where
  "truthy JNull = False"
| "truthy (JBool b) = b"
| "truthy (JNum n) = (n \<noteq> 0)"
| "truthy (JStr s) = (s \<noteq> [])"
| "truthy (JArr xs) = (xs \<noteq> [])"
| "truthy (JObj kvs) = (kvs \<noteq> [])"

text \<open>\<^verbatim>\<open>data.get(key, default)\<close> on a dict.\<close>

definition dict_get :: "(string \<times> json) list \<Rightarrow> string \<Rightarrow> json \<Rightarrow> json" where
  "dict_get kvs k d = (case map_of kvs k of None \<Rightarrow> d | Some v \<Rightarrow> v)"

text \<open>\<^verbatim>\<open>len(images)\<close>: numbers, booleans and \<^verbatim>\<open>None\<close> have no length.\<close>

fun py_len :: "json \<Rightarrow> py_exn + nat" where
  "py_len (JStr s) = Inr (length s)"
| "py_len (JArr xs) = Inr (length xs)"
| "py_len (JObj kvs) = Inr (length kvs)"
| "py_len v = Inl TypeError"

text \<open>
  \<^verbatim>\<open>images[0]\<close>: the first element of a list, the first character of a string; a dict
  parsed from JSON has string keys only, so the key \<open>0\<close> is missing.
\<close>

fun py_getitem0 :: "json \<Rightarrow> py_exn + json" where
  "py_getitem0 (JArr []) = Inl IndexError"
| "py_getitem0 (JArr (x # xs)) = Inr x"
| "py_getitem0 (JStr []) = Inl IndexError"
| "py_getitem0 (JStr (c # cs)) = Inr (JStr [c])"
| "py_getitem0 (JObj kvs) = Inl KeyError"
| "py_getitem0 v = Inl TypeError"

text \<open>
  \<^verbatim>\<open>for ... in enumerate(images)\<close>: the elements of a list, the characters of a string,
  the keys of a dict.
\<close>

fun py_iter :: "json \<Rightarrow> py_exn + json list" where
  "py_iter (JArr xs) = Inr xs"
| "py_iter (JStr s) = Inr (map (\<lambda>c. JStr [c]) s)"
| "py_iter (JObj kvs) = Inr (map (\<lambda>kv. JStr (fst kv)) kvs)"
| "py_iter v = Inl TypeError"

text \<open>\<^verbatim>\<open>str.lower()\<close> on ASCII: the letters A to Z move to a to z, nothing else changes.\<close>

definition lower_char :: "char \<Rightarrow> char" where
  "lower_char c =
     (let n = (of_char c :: nat) in if 65 \<le> n \<and> n \<le> 90 then char_of (n + 32) else c)"

definition lower :: "string \<Rightarrow> string" where
  "lower s = map lower_char s"

text \<open>\<^verbatim>\<open>str(n)\<close> for a natural number and \<^verbatim>\<open>s.zfill(width)\<close> for a string without sign.\<close>

definition digit_char :: "nat \<Rightarrow> char" where
  "digit_char d = char_of (48 + d)"

function str_nat :: "nat \<Rightarrow> string" where
  "str_nat n = (if n < 10 then [digit_char n] else str_nat (n div 10) @ [digit_char (n mod 10)])"
  by pat_completeness auto
termination
  by (relation "measure id") auto

declare str_nat.simps [simp del]

definition zfill :: "nat \<Rightarrow> string \<Rightarrow> string" where
  "zfill width s = replicate (width - length s) (CHR ''0'') @ s"

subsection \<open>Images\<close>

text \<open>
  A PIL image is kept as the expression that built it: the result of \<^verbatim>\<open>Image.open\<close>
  (mode, size and the identity of the decoded content), of \<^verbatim>\<open>Image.new(mode, size, color)\<close>,
  the base image after \<^verbatim>\<open>base.paste(im, mask=m)\<close>, and the band \<^verbatim>\<open>im.split()[k]\<close>.
  \<^verbatim>\<open>Image.open\<close> reads the header only: \<open>Truncated\<close> is an image whose header gives mode and
  size but whose pixel data cannot be loaded afterwards.
\<close>

datatype pil =
    Opened string "nat \<times> nat" nat
  | Truncated string "nat \<times> nat" nat
  | New string "nat \<times> nat" "nat \<times> nat \<times> nat"
  | Pasted pil pil "pil option"
  | Band pil int

fun im_mode :: "pil \<Rightarrow> string" where
  "im_mode (Opened m sz c) = m"
| "im_mode (Truncated m sz c) = m"
| "im_mode (New m sz col) = m"
| "im_mode (Pasted base im msk) = im_mode base"
| "im_mode (Band im k) = ''L''"

fun im_size :: "pil \<Rightarrow> nat \<times> nat" where
  "im_size (Opened m sz c) = sz"
| "im_size (Truncated m sz c) = sz"
| "im_size (New m sz col) = sz"
| "im_size (Pasted base im msk) = im_size base"
| "im_size (Band im k) = im_size im"

text \<open>Whether the pixel data of every image of the expression loads.\<close>

fun loads :: "pil \<Rightarrow> bool" where
  "loads (Opened m sz c) = True"
| "loads (Truncated m sz c) = False"
| "loads (New m sz col) = True"
| "loads (Pasted base im None) = (loads base \<and> loads im)"
| "loads (Pasted base im (Some msk)) = (loads base \<and> loads im \<and> loads msk)"
| "loads (Band im k) = loads im"

text \<open>
  \<^verbatim>\<open>image.save(target, 'JPEG', ...)\<close> returns normally when the image loads and its mode is
  one the JPEG writer of Pillow knows; for any other mode (RGBA, LA, P, PA, I, F, ...) it
  raises \<^verbatim>\<open>OSError: cannot write mode ... as JPEG\<close>.
\<close>

definition jpeg_ok :: "pil \<Rightarrow> bool" where
  "jpeg_ok img \<longleftrightarrow>
     loads img \<and> im_mode img \<in> set [''1'', ''L'', ''RGB'', ''RGBX'', ''CMYK'', ''YCbCr'']"

text \<open>
  The content of a file: the JPEG encoding of an image, with the quality if one was given,
  or nothing.
\<close>

datatype blob = Jpeg pil "nat option" | Empty_file

subsection \<open>The three artifacts\<close>

text \<open>The PDF canvas is the page size it was created with and the calls made on it.\<close>

datatype canvas_op =
    DrawImage nat int int nat nat
  | ShowPage
  | Save

record canvas =
  pagesize :: "nat \<times> nat"
  ops :: "canvas_op list"

type_synonym layout = string

text \<open>\<^verbatim>\<open>Inches(x)\<close> of python-pptx: English Metric Units, 914400 to the inch.\<close>

definition Inches :: "rat \<Rightarrow> int" where
  "Inches x = \<lfloor>x * 914400\<rfloor>"

datatype picture = Picture nat int int int int

record slide =
  layout :: layout
  shapes :: "picture list"

record presentation =
  slide_layouts :: "layout list"
  slides :: "slide list"

datatype artifact =
    Pdf canvas
  | Pptx presentation
  | Zip "(string \<times> blob) list"

subsection \<open>The world and the state of the process\<close>

text \<open>An entry of the global \<^verbatim>\<open>cleanup_queue\<close>, the dict built by \<^verbatim>\<open>schedule_cleanup\<close>.\<close>

record item =
  rtype :: string
  path :: "nat option"
  buffer :: "artifact option"
  created :: int

record world =
  net :: "nat \<Rightarrow> json \<Rightarrow> pil option"
  sld_layouts_clear :: "py_exn + layout list"
  release_raises :: "item \<Rightarrow> bool"

text \<open>
  \<open>net w k url\<close> is what the \<open>k\<close>-th network call of the process returns when it asks for
  \<open>url\<close>: the image opened, or \<open>None\<close> when \<^verbatim>\<open>download_image\<close> raises (network error,
  HTTP error status, a body that is no image, or a value that is no URL at all).

  \<open>sld_layouts_clear w\<close> is the outcome of lines 144 to 147,
  \<^verbatim>\<open>prs = Presentation(); prs.slide_layouts._sldLayouts.clear()\<close>: the exception raised, or
  the slide layouts that \<^verbatim>\<open>prs.slide_layouts\<close> holds afterwards. The collection of
  python-pptx has no attribute of that name, so the access raises \<^verbatim>\<open>AttributeError\<close>; the
  other outcome is what the comment of line 146 expects.

  \<open>release_raises w it\<close> tells whether \<^verbatim>\<open>os.unlink\<close> or \<^verbatim>\<open>close\<close> raises when the sweeper
  releases the entry \<open>it\<close>.
\<close>

text \<open>
  The process state: the URLs requested so far, the temporary files on disk (a temporary
  file is named by its number), the buffers closed so far, the global \<^verbatim>\<open>cleanup_queue\<close>
  and the reading of \<^verbatim>\<open>time.time()\<close>.
\<close>

record sys =
  net_log :: "json list"
  files :: "(nat \<times> blob) list"
  closed :: "artifact list"
  cleanup_queue :: "item list"
  now :: int

subsection \<open>\<^verbatim>\<open>schedule_cleanup\<close> and \<^verbatim>\<open>download_image\<close>\<close>

definition schedule_cleanup :: "sys \<Rightarrow> string \<Rightarrow> nat option \<Rightarrow> artifact option \<Rightarrow> sys" where
  "schedule_cleanup s resource_type p b =
     s\<lparr>cleanup_queue := cleanup_queue s @
          [\<lparr>rtype = resource_type, path = p, buffer = b, created = now s\<rparr>]\<rparr>"

definition download_image :: "world \<Rightarrow> sys \<Rightarrow> json \<Rightarrow> pil option \<times> sys" where
  "download_image w s url = (net w (length (net_log s)) url, s\<lparr>net_log := net_log s @ [url]\<rparr>)"

text \<open>
  \<^verbatim>\<open>tempfile.NamedTemporaryFile(suffix='.jpg', delete=False)\<close> followed by
  \<^verbatim>\<open>image.save(temp_path, 'JPEG')\<close> (lines 116 to 118 and 170 to 172). The file is created
  first and is not deleted on exit. When the image is saved the result is the path of the
  file, which holds the encoded image; when \<^verbatim>\<open>image.save\<close> raises the result is \<open>None\<close> and
  the file stays behind, empty.
\<close>

definition save_temp_jpeg :: "sys \<Rightarrow> pil \<Rightarrow> nat option \<times> sys" where
  "save_temp_jpeg s img =
     (let temp_path = length (files s) in
        if jpeg_ok img
        then (Some temp_path, s\<lparr>files := files s @ [(temp_path, Jpeg img None)]\<rparr>)
        else (None, s\<lparr>files := files s @ [(temp_path, Empty_file)]\<rparr>))"

subsection \<open>\<^verbatim>\<open>create_pdf_from_images\<close>\<close>

text \<open>
  The loop of lines 109 to 131 at index \<open>i\<close> of \<open>n\<close>, with the canvas calls made so far.
  An exception of the download or of \<^verbatim>\<open>image.save\<close> is caught at line 129: the image is
  skipped, nothing is drawn for it and nothing is registered.
\<close>

fun pdf_loop ::
  "world \<Rightarrow> nat \<Rightarrow> nat \<times> nat \<Rightarrow> nat \<Rightarrow> json list \<Rightarrow> sys \<times> canvas_op list \<Rightarrow> sys \<times> canvas_op list"
where
  "pdf_loop w n wh i [] (s, c) = (s, c)"
| "pdf_loop w n wh i (image_url # rest) (s, c) =
     (case download_image w s image_url of
        (None, s1) \<Rightarrow> pdf_loop w n wh (i + 1) rest (s1, c)
      | (Some img, s1) \<Rightarrow>
          (case save_temp_jpeg s1 img of
             (None, s2) \<Rightarrow> pdf_loop w n wh (i + 1) rest (s2, c)
           | (Some temp_path, s2) \<Rightarrow>
               (let c1 = c @ [DrawImage temp_path 0 0 (fst wh) (snd wh)];
                    s3 = schedule_cleanup s2 ''file'' (Some temp_path) None;
                    c2 = (if int i < int n - 1 then c1 @ [ShowPage] else c1)
                in pdf_loop w n wh (i + 1) rest (s3, c2))))"

definition create_pdf_from_images :: "world \<Rightarrow> sys \<Rightarrow> json \<Rightarrow> json \<Rightarrow> (py_exn + artifact) \<times> sys" where
  "create_pdf_from_images w s images title =
     (case py_getitem0 images of
        Inl e \<Rightarrow> (Inl e, s)
      | Inr url0 \<Rightarrow>
          (case download_image w s url0 of
             (None, s1) \<Rightarrow> (Inl Download_failed, s1)
           | (Some first_image, s1) \<Rightarrow>
               (case py_iter images of
                  Inl e \<Rightarrow> (Inl e, s1)
                | Inr urls \<Rightarrow>
                    (let (s2, c) = pdf_loop w (length urls) (im_size first_image) 0 urls (s1, [])
                     in (Inr (Pdf \<lparr>pagesize = im_size first_image, ops = c @ [Save]\<rparr>), s2)))))"


subsection \<open>\<^verbatim>\<open>create_ppt_from_images\<close>\<close>

text \<open>\<^verbatim>\<open>prs.slide_layouts[k]\<close>: \<open>None\<close> stands for the IndexError.\<close>

definition layout_at :: "layout list \<Rightarrow> nat \<Rightarrow> layout option" where
  "layout_at ls k = (if k < length ls then Some (ls ! k) else None)"

text \<open>
  Lines 160 to 184: a slide of the layout is added and its shapes are removed; then the
  image goes through a temporary file and is added as a picture of 10 by 7.5 inches. When
  \<^verbatim>\<open>image.save\<close> raises, the handler of line 186 skips the rest and the slide stays
  without a picture. The slide is kept as its layout and the pictures added to it.
\<close>

definition fill_slide :: "sys \<Rightarrow> presentation \<Rightarrow> layout \<Rightarrow> pil \<Rightarrow> sys \<times> presentation" where
  "fill_slide s prs l img =
     (case save_temp_jpeg s img of
        (None, s2) \<Rightarrow> (s2, prs\<lparr>slides := slides prs @ [\<lparr>layout = l, shapes = []\<rparr>]\<rparr>)
      | (Some temp_path, s2) \<Rightarrow>
          (schedule_cleanup s2 ''file'' (Some temp_path) None,
           prs\<lparr>slides := slides prs @
             [\<lparr>layout = l,
               shapes = [Picture temp_path (Inches 0) (Inches 0) (Inches 10) (Inches 7.5)]\<rparr>]\<rparr>))"

fun ppt_loop :: "world \<Rightarrow> json list \<Rightarrow> sys \<times> presentation \<Rightarrow> sys \<times> presentation" where
  "ppt_loop w [] (s, prs) = (s, prs)"
| "ppt_loop w (image_url # rest) (s, prs) =
     (case download_image w s image_url of
        (None, s1) \<Rightarrow> ppt_loop w rest (s1, prs)
      | (Some img, s1) \<Rightarrow>
          (case (if slide_layouts prs \<noteq> [] then layout_at (slide_layouts prs) 0 else None) of
             None \<Rightarrow>
               (case layout_at (slide_layouts prs) 6 of
                  None \<Rightarrow> ppt_loop w rest (s1, prs)
                | Some blank \<Rightarrow> ppt_loop w rest (fill_slide s1 prs blank img))
           | Some slide_layout \<Rightarrow> ppt_loop w rest (fill_slide s1 prs slide_layout img)))"

definition create_ppt_from_images :: "world \<Rightarrow> sys \<Rightarrow> json \<Rightarrow> json \<Rightarrow> (py_exn + artifact) \<times> sys" where
  "create_ppt_from_images w s images title =
     (case sld_layouts_clear w of
        Inl e \<Rightarrow> (Inl e, s)
      | Inr ls \<Rightarrow>
          (case py_iter images of
             Inl e \<Rightarrow> (Inl e, s)
           | Inr urls \<Rightarrow>
               (let (s1, prs) = ppt_loop w urls (s, \<lparr>slide_layouts = ls, slides = []\<rparr>)
                in (Inr (Pptx prs), s1))))"

subsection \<open>\<^verbatim>\<open>create_zip_from_images\<close>\<close>

text \<open>Lines 215 to 220: an image of mode RGBA or LA is pasted on a new white RGB image.\<close>

definition to_rgb :: "pil \<Rightarrow> pil" where
  "to_rgb img =
     (if im_mode img \<in> set [''RGBA'', ''LA'']
      then Pasted (New ''RGB'' (im_size img) (255, 255, 255)) img
             (if im_mode img = ''RGBA'' then Some (Band img (- 1)) else None)
      else img)"

text \<open>
  The loop of lines 206 to 232. An exception of the download, of the paste or of
  \<^verbatim>\<open>image.save\<close> is caught at line 230: no entry is written for the image.
\<close>

fun zip_loop ::
  "world \<Rightarrow> nat \<Rightarrow> json list \<Rightarrow> sys \<times> (string \<times> blob) list \<Rightarrow> sys \<times> (string \<times> blob) list"
where
  "zip_loop w i [] (s, z) = (s, z)"
| "zip_loop w i (image_url # rest) (s, z) =
     (case download_image w s image_url of
        (None, s1) \<Rightarrow> zip_loop w (i + 1) rest (s1, z)
      | (Some img, s1) \<Rightarrow>
          (let filename = ''slide_'' @ zfill 3 (str_nat (i + 1)) @ ''.jpg''
           in if jpeg_ok (to_rgb img)
              then zip_loop w (i + 1) rest (s1, z @ [(filename, Jpeg (to_rgb img) (Some 95))])
              else zip_loop w (i + 1) rest (s1, z)))"

definition create_zip_from_images :: "world \<Rightarrow> sys \<Rightarrow> json \<Rightarrow> json \<Rightarrow> (py_exn + artifact) \<times> sys" where
  "create_zip_from_images w s images title =
     (case py_iter images of
        Inl e \<Rightarrow> (Inl e, s)
      | Inr urls \<Rightarrow> (let (s1, z) = zip_loop w 0 urls (s, []) in (Inr (Zip z), s1)))"

subsection \<open>\<^verbatim>\<open>convert\<close>\<close>

text \<open>
  A response is \<^verbatim>\<open>jsonify({'error': message}), status\<close> or \<^verbatim>\<open>send_file(...)\<close> with the
  artifact, the MIME type and the download name \<^verbatim>\<open>f"{title}.ext"\<close>, kept as the title and
  the extension. The message of the handler at line 303 is kept as the exception it prints.
\<close>

datatype message =
    Text string
  | Conversion_failed py_exn

datatype response =
    Error_json message nat
  | Send_file artifact string "json \<times> string"

fun status :: "response \<Rightarrow> nat" where
  "status (Error_json m code) = code"
| "status (Send_file a mimetype filename) = 200"

text \<open>
  \<^verbatim>\<open>send_file\<close> puts the download name into a response header and raises \<^verbatim>\<open>ValueError\<close>
  when it holds a carriage return or a line feed. Only a title that is a string can bring
  one in: the text of any other JSON value has none.
\<close>

definition header_unsafe :: "json \<Rightarrow> bool" where
  "header_unsafe title =
     (case title of JStr t \<Rightarrow> CHR 0x0A \<in> set t \<or> CHR 0x0D \<in> set t | _ \<Rightarrow> False)"

text \<open>
  Lines 278 to 303 on the result of a renderer: an exception of the renderer is answered
  with status 500; a buffer is scheduled for cleanup and sent, and an exception of
  \<^verbatim>\<open>send_file\<close> is answered with status 500 as well.
\<close>

fun respond :: "(py_exn + artifact) \<times> sys \<Rightarrow> string \<Rightarrow> json \<Rightarrow> string \<Rightarrow> response \<times> sys" where
  "respond (Inl e, s1) mimetype title ext = (Error_json (Conversion_failed e) 500, s1)"
| "respond (Inr file_buffer, s1) mimetype title ext =
     (let s2 = schedule_cleanup s1 ''buffer'' None (Some file_buffer)
      in if header_unsafe title
         then (Error_json (Conversion_failed ValueError) 500, s2)
         else (Send_file file_buffer mimetype (title, ext), s2))"

text \<open>
  Lines 262 to 276: the renderer of the format, with the MIME type and the extension of
  the download name. When no branch is taken \<^verbatim>\<open>mimetype\<close> is unbound at line 296
  (validation excludes it).
\<close>

definition render ::
  "world \<Rightarrow> sys \<Rightarrow> string \<Rightarrow> json \<Rightarrow> json \<Rightarrow> ((py_exn + artifact) \<times> sys) \<times> string \<times> string"
where
  "render w s format_type images title =
     (if format_type = ''pdf''
      then (create_pdf_from_images w s images title, ''application/pdf'', ''.pdf'')
      else if format_type = ''ppt''
      then (create_ppt_from_images w s images title,
            ''application/vnd.openxmlformats-officedocument.presentationml.presentation'',
            ''.pptx'')
      else if format_type = ''zip''
      then (create_zip_from_images w s images title, ''application/zip'', ''.zip'')
      else ((Inl UnboundLocalError, s), [], []))"

definition convert :: "world \<Rightarrow> sys \<Rightarrow> json \<Rightarrow> response \<times> sys" where
  "convert w s data =
     (if \<not> truthy data then (Error_json (Text ''No JSON data provided'') 400, s)
      else
        (case data of
           JObj kvs \<Rightarrow>
             (let images = dict_get kvs ''images'' (JArr []);
                  title = dict_get kvs ''title'' (JStr ''Presentation'')
              in
                (case dict_get kvs ''format'' (JStr ''pdf'') of
                   JStr f \<Rightarrow>
                     (let format_type = lower f in
                        if \<not> truthy images
                        then (Error_json (Text ''No images provided'') 400, s)
                        else if format_type \<notin> set [''pdf'', ''ppt'', ''zip'']
                        then (Error_json (Text ''Invalid format. Must be pdf, ppt, or zip'') 400, s)
                        else
                          (case py_len images of
                             Inl e \<Rightarrow> (Error_json (Conversion_failed e) 500, s)
                           | Inr n \<Rightarrow>
                               (case render w s format_type images title of
                                  (r, mimetype, ext) \<Rightarrow> respond r mimetype title ext)))
                 | _ \<Rightarrow> (Error_json (Conversion_failed AttributeError) 500, s)))
         | _ \<Rightarrow> (Error_json (Conversion_failed AttributeError) 500, s)))"

subsection \<open>\<^verbatim>\<open>cleanup_resources\<close>\<close>

text \<open>\<^verbatim>\<open>os.path.exists(item['path'])\<close>.\<close>

definition path_exists :: "sys \<Rightarrow> nat option \<Rightarrow> bool" where
  "path_exists s p = (case p of None \<Rightarrow> False | Some f \<Rightarrow> f \<in> set (map fst (files s)))"

text \<open>
  Lines 40 to 49 for one entry: a file that exists is unlinked, a buffer is closed; an
  exception of either is caught at line 48 and leaves the storage as it was.
\<close>

definition release :: "world \<Rightarrow> item \<Rightarrow> sys \<Rightarrow> sys" where
  "release w it s =
     (if rtype it = ''file'' \<and> path_exists s (path it)
      then (if release_raises w it then s
            else s\<lparr>files := filter (\<lambda>f. Some (fst f) \<noteq> path it) (files s)\<rparr>)
      else if rtype it = ''buffer''
      then (case buffer it of
              None \<Rightarrow> s
            | Some b \<Rightarrow> if release_raises w it then s else s\<lparr>closed := closed s @ [b]\<rparr>)
      else s)"

text \<open>Line 39: the entry is older than five minutes at the clock reading of the pass.\<close>

definition stale :: "int \<Rightarrow> item \<Rightarrow> bool" where
  "stale current_time it \<longleftrightarrow> current_time - created it > 300"

text \<open>
  One pass of the loop, lines 33 to 55: every stale entry is released and, in the
  \<^verbatim>\<open>finally\<close> of line 50, noted for removal; then the noted entries are removed from the
  queue, each with \<^verbatim>\<open>cleanup_queue.remove\<close>.
\<close>

definition cleanup_pass :: "world \<Rightarrow> sys \<Rightarrow> sys" where
  "cleanup_pass w s =
     (let current_time = now s;
          items_to_remove = filter (stale current_time) (cleanup_queue s);
          s1 = fold (release w) items_to_remove s
      in s1\<lparr>cleanup_queue := fold remove1 items_to_remove (cleanup_queue s1)\<rparr>)"

text \<open>
  The thread: one pass, then \<^verbatim>\<open>time.sleep(60)\<close>, for ever. It is run here over the clock
  readings of its successive passes.
\<close>

fun cleanup_resources :: "world \<Rightarrow> int list \<Rightarrow> sys \<Rightarrow> sys" where
  "cleanup_resources w [] s = s"
| "cleanup_resources w (t # ts) s = cleanup_resources w ts (cleanup_pass w (s\<lparr>now := t\<rparr>))"

subsection \<open>Notions used to state the properties\<close>

text \<open>
  The images whose download succeeds, each with its position in the input, when the
  URLs of a list are requested one after the other from network call \<open>k\<close> on and the
  first URL has position \<open>i\<close>.
\<close>

fun fetched_at :: "world \<Rightarrow> nat \<Rightarrow> nat \<Rightarrow> json list \<Rightarrow> (nat \<times> pil) list" where
  "fetched_at w k i [] = []"
| "fetched_at w k i (url # rest) =
     (case net w k url of
        None \<Rightarrow> fetched_at w (Suc k) (Suc i) rest
      | Some img \<Rightarrow> (i, img) # fetched_at w (Suc k) (Suc i) rest)"




text \<open>
  The specification's wording for the archive entry of the image at input position \<open>i\<close>:
  \<^verbatim>\<open>slide_\<close>, the number \<open>i + 1\<close> in decimal, padded with zeros to three digits, and the
  extension; the image is encoded at quality 95.
\<close>

definition three_digits :: "nat \<Rightarrow> string" where
  "three_digits n = [digit_char (n div 100), digit_char (n div 10 mod 10), digit_char (n mod 10)]"

definition slide_name :: "nat \<Rightarrow> string" where
  "slide_name n = ''slide_'' @ (if n < 1000 then three_digits n else str_nat n) @ ''.jpg''"

definition slide_entry :: "nat \<times> pil \<Rightarrow> string \<times> blob" where
  "slide_entry p = (slide_name (Suc (fst p)), Jpeg (to_rgb (snd p)) (Some 95))"

text \<open>
  The specification's wording for the colour normalisation: the image is composited onto
  an opaque white background, that is, pasted on a new white RGB image of its size with
  its own alpha band, the last one, as the mask. (A paste without mask ignores the alpha
  band of the pasted image and overwrites the background.)
\<close>

definition composited_on_white :: "pil \<Rightarrow> pil \<Rightarrow> bool" where
  "composited_on_white img out \<longleftrightarrow>
     out = Pasted (New ''RGB'' (im_size img) (255, 255, 255)) img (Some (Band img (- 1)))"

text \<open>
  The capitalisations of a string of small letters: each letter as it is or as the capital
  letter.
\<close>

definition upper_char :: "char \<Rightarrow> char" where
  "upper_char c = char_of (of_char c - (32 :: nat))"

fun capitalisations :: "string \<Rightarrow> string list" where
  "capitalisations [] = [[]]"
| "capitalisations (c # cs) =
     concat (map (\<lambda>r. [c # r, upper_char c # r]) (capitalisations cs))"

text \<open>
  Clock readings of successive passes that \<^verbatim>\<open>time.sleep(60)\<close> allows: each pass reads the
  clock at least 60 seconds after the one before.
\<close>

fun sleeps_60 :: "int list \<Rightarrow> bool" where
  "sleeps_60 (t # u # ts) = (t + 60 \<le> u \<and> sleeps_60 (u # ts))"
| "sleeps_60 ts = True"

text \<open>
  The specification's wording for the reclamation: the entry is gone from the queue once
  the passes up to the deadline have run.
\<close>

definition reclaimed_by :: "world \<Rightarrow> int list \<Rightarrow> sys \<Rightarrow> item \<Rightarrow> int \<Rightarrow> bool" where
  "reclaimed_by w ts s it deadline \<longleftrightarrow>
     it \<notin> set (cleanup_queue (cleanup_resources w (filter (\<lambda>t. t \<le> deadline) ts) s))"

text \<open>Passes exactly 60 seconds apart, \<open>n\<close> of them from \<open>p0\<close> on.\<close>

definition every_60 :: "int \<Rightarrow> nat \<Rightarrow> int list" where
  "every_60 p0 n = map (\<lambda>k. p0 + 60 * int k) [0..<n]"

subsection \<open>Example worlds\<close>

definition s_0 :: sys where
  "s_0 = \<lparr>net_log = [], files = [], closed = [], cleanup_queue = [], now = 0\<rparr>"

definition url_a :: json where
  "url_a = JStr ''https://x/a.png''"

definition url_b :: json where
  "url_b = JStr ''https://x/b.png''"

text \<open>Both URLs resolve; line 147 removes the slide layouts, as its comment says.\<close>

definition world_up :: world where
  "world_up =
     \<lparr>net = (\<lambda>k url. if url = url_a then Some (Opened ''RGB'' (1280, 720) 0)
                     else if url = url_b then Some (Opened ''RGB'' (800, 600) 1)
                     else None),
      sld_layouts_clear = Inr [],
      release_raises = (\<lambda>it. False)\<rparr>"


text \<open>Both URLs resolve; line 147 raises, the private attribute being absent.\<close>

definition world_clear_raises :: world where
  "world_clear_raises = world_up\<lparr>sld_layouts_clear := Inl AttributeError\<rparr>"

text \<open>Nothing resolves.\<close>

definition world_down :: world where
  "world_down =
     \<lparr>net = (\<lambda>k url. None), sld_layouts_clear = Inr [], release_raises = (\<lambda>it. False)\<rparr>"

text \<open>Nothing resolves and line 147 raises.\<close>

definition world_down_clear_raises :: world where
  "world_down_clear_raises = world_down\<lparr>sld_layouts_clear := Inl AttributeError\<rparr>"

text \<open>
  The first URL is a greyscale image with an alpha band, the second a colour image with
  an alpha band.
\<close>

definition world_alpha :: world where
  "world_alpha =
     \<lparr>net = (\<lambda>k url. if url = url_a then Some (Opened ''LA'' (1280, 720) 0)
                     else if url = url_b then Some (Opened ''RGBA'' (800, 600) 1)
                     else None),
      sld_layouts_clear = Inr [],
      release_raises = (\<lambda>it. False)\<rparr>"


text \<open>Releasing raises for every entry.\<close>

definition world_release_raises :: world where
  "world_release_raises = world_down\<lparr>release_raises := (\<lambda>it. True)\<rparr>"

text \<open>A temporary file written and registered at time 5.\<close>

definition file_item_5 :: item where
  "file_item_5 = \<lparr>rtype = ''file'', path = Some 0, buffer = None, created = 5\<rparr>"

definition s_registered :: sys where
  "s_registered =
     \<lparr>net_log = [url_a], files = [(0, Jpeg (Opened ''RGB'' (1280, 720) 0) None)], closed = [],
      cleanup_queue = [file_item_5], now = 5\<rparr>"

section \<open>Properties\<close>

subsection \<open>Strings\<close>

lemma lower_char_idem: "lower_char (lower_char c) = lower_char c"
  by (auto simp: lower_char_def Let_def)

lemma lower_idem: "lower (lower s) = lower s"
  by (simp add: lower_def lower_char_idem)

lemma lower_capitalisations_pdf: "\<forall>f \<in> set (capitalisations ''pdf''). lower f = ''pdf''"
  by code_simp

lemma lower_capitalisations_ppt: "\<forall>f \<in> set (capitalisations ''ppt''). lower f = ''ppt''"
  by code_simp

lemma lower_capitalisations_zip: "\<forall>f \<in> set (capitalisations ''zip''). lower f = ''zip''"
  by code_simp

subsection \<open>The loops\<close>

lemma zip_loop_eq:
  "zip_loop w i urls (s, z) =
     (s\<lparr>net_log := net_log s @ urls\<rparr>,
      z @ map (\<lambda>p. (''slide_'' @ zfill 3 (str_nat (Suc (fst p))) @ ''.jpg'',
                     Jpeg (to_rgb (snd p)) (Some 95)))
            (filter (\<lambda>p. jpeg_ok (to_rgb (snd p))) (fetched_at w (length (net_log s)) i urls)))"
  by (induction urls arbitrary: i s z) (simp_all add: download_image_def split: option.splits)

lemma fill_slide_simps:
  "net_log (fst (fill_slide s prs l img)) = net_log s"
  "slide_layouts (snd (fill_slide s prs l img)) = slide_layouts prs"
  "length (slides (snd (fill_slide s prs l img))) = Suc (length (slides prs))"
  by (simp_all add: fill_slide_def save_temp_jpeg_def schedule_cleanup_def Let_def)

lemma ppt_loop_step:
  "ppt_loop w (u # us) p =
     (case net w (length (net_log (fst p))) u of
        None \<Rightarrow> ppt_loop w us ((fst p)\<lparr>net_log := net_log (fst p) @ [u]\<rparr>, snd p)
      | Some img \<Rightarrow>
          (case slide_layouts (snd p) of
             [] \<Rightarrow> ppt_loop w us ((fst p)\<lparr>net_log := net_log (fst p) @ [u]\<rparr>, snd p)
           | l # ls \<Rightarrow>
               ppt_loop w us
                 (fill_slide ((fst p)\<lparr>net_log := net_log (fst p) @ [u]\<rparr>) (snd p) l img)))"
  by (cases p) (simp add: download_image_def layout_at_def split: option.splits list.splits)

lemma ppt_loop_no_layout:
  "slide_layouts (snd p) = [] \<Longrightarrow>
   ppt_loop w urls p = ((fst p)\<lparr>net_log := net_log (fst p) @ urls\<rparr>, snd p)"
proof (induction urls arbitrary: p)
  case Nil
  show ?case by (cases p) simp
next
  case (Cons u us)
  then show ?case
    by (simp add: ppt_loop_step split: option.splits)
qed

lemma ppt_loop_count:
  "slide_layouts (snd p) \<noteq> [] \<Longrightarrow>
   length (slides (snd (ppt_loop w urls p))) =
     length (slides (snd p)) + length (fetched_at w (length (net_log (fst p))) i urls)"
proof (induction urls arbitrary: p i)
  case Nil
  show ?case by (cases p) simp
next
  case (Cons u us)
  let ?s1 = "(fst p)\<lparr>net_log := net_log (fst p) @ [u]\<rparr>"
  show ?case
  proof (cases "net w (length (net_log (fst p))) u")
    case None
    with Cons.IH [of "(?s1, snd p)" "Suc i"] Cons.prems show ?thesis
      by (simp add: ppt_loop_step)
  next
    case (Some img)
    from Cons.prems obtain l ls where ls: "slide_layouts (snd p) = l # ls"
      by (cases "slide_layouts (snd p)") auto
    with Some Cons.IH [of "fill_slide ?s1 (snd p) l img" "Suc i"] show ?thesis
      by (simp add: ppt_loop_step fill_slide_simps)
  qed
qed








subsection \<open>The handler\<close>

lemma dict_get_present: "dict_get kvs k d = v \<Longrightarrow> v \<noteq> d \<Longrightarrow> kvs \<noteq> []"
  by (auto simp: dict_get_def)

text \<open>
  A request that passes validation with a non-empty list of images is answered from the
  result of the renderer of its format.
\<close>

lemma convert_dispatch:
  assumes "dict_get kvs ''format'' (JStr ''pdf'') = JStr f"
    and "lower f \<in> set [''pdf'', ''ppt'', ''zip'']"
    and "dict_get kvs ''images'' (JArr []) = JArr (url # urls)"
  shows "convert w s (JObj kvs) =
     (case render w s (lower f) (JArr (url # urls))
             (dict_get kvs ''title'' (JStr ''Presentation'')) of
        (r, mimetype, ext) \<Rightarrow>
          respond r mimetype (dict_get kvs ''title'' (JStr ''Presentation'')) ext)"
proof -
  from assms(3) have "kvs \<noteq> []" by (rule dict_get_present) simp
  with assms show ?thesis by (simp add: convert_def Let_def)
qed

lemma respond_status: "status (fst (respond r mimetype title ext)) \<noteq> 400"
  by (cases r, cases "fst r") (auto simp: Let_def)

text \<open>
  When the format field is absent or a string, a request whose images are empty or whose
  lowercased format is none of the three kinds is answered with status 400 and a literal
  message, and the process state is untouched: no renderer ran, nothing was requested
  from the network, nothing was registered for cleanup.
\<close>

lemma convert_validation:
  assumes "dict_get kvs ''format'' (JStr ''pdf'') = JStr f"
    and "\<not> truthy (dict_get kvs ''images'' (JArr [])) \<or>
         lower f \<notin> set [''pdf'', ''ppt'', ''zip'']"
  shows "\<exists>m. convert w s (JObj kvs) = (Error_json (Text m) 400, s)"
  using assms by (auto simp: convert_def Let_def)

text \<open>
  C2: for every request, \<^verbatim>\<open>convert\<close> fails with a validation error (status 400, body
  \<^verbatim>\<open>{error: string}\<close>) when the images list is empty or the format is not one of the three
  kinds, and then no renderer runs and nothing is fetched.

  The handler calls \<^verbatim>\<open>.lower()\<close> on the format field at line 251, before either check
  and whatever the type of the field. For the body \<^verbatim>\<open>{"images": [], "format": 5}\<close> the
  call raises, the handler of line 301 catches it, and the answer is status 500 with the
  message of a failed conversion, although the images list is empty and \<open>5\<close> is not a
  format. (The state is unchanged there too, and \<open>convert_validation\<close> covers the requests
  whose format is a string.)
\<close>

theorem convert_non_string_format:
  "convert w s (JObj [(''images'', JArr []), (''format'', JNum 5)]) =
     (Error_json (Conversion_failed AttributeError) 500, s)"
  by (simp add: convert_def dict_get_def)

text \<open>
  C3: for every request with format pdf whose first image fails to fetch, the PDF renderer
  fails, the failure reaches the caller as status 500, and no document is returned. The
  only effect is the one network request.
\<close>

theorem pdf_first_fetch_fails:
  assumes "dict_get kvs ''format'' (JStr ''pdf'') = JStr f" and "lower f = ''pdf''"
    and "dict_get kvs ''images'' (JArr []) = JArr (url # urls)"
    and "net w (length (net_log s)) url = None"
  shows "create_pdf_from_images w s (JArr (url # urls)) title =
           (Inl Download_failed, s\<lparr>net_log := net_log s @ [url]\<rparr>) \<and>
         convert w s (JObj kvs) =
           (Error_json (Conversion_failed Download_failed) 500,
            s\<lparr>net_log := net_log s @ [url]\<rparr>)"
proof -
  have r: "create_pdf_from_images w s (JArr (url # urls)) t =
           (Inl Download_failed, s\<lparr>net_log := net_log s @ [url]\<rparr>)" for t
    using assms(4) by (simp add: create_pdf_from_images_def download_image_def)
  from assms(2) have kind: "lower f \<in> set [''pdf'', ''ppt'', ''zip'']" by simp
  from convert_dispatch [OF assms(1) kind assms(3), of w s] r assms(2)
  show ?thesis by (simp add: render_def)
qed

theorem pdf_first_fetch_fails_witness:
  "net world_down (length (net_log s_0)) url_a = None \<and>
   convert world_down s_0
     (JObj [(''images'', JArr [url_a, url_b]), (''format'', JStr ''pdf'')]) =
     (Error_json (Conversion_failed Download_failed) 500, s_0\<lparr>net_log := [url_a]\<rparr>)"
  using pdf_first_fetch_fails
          [of "[(''images'', JArr [url_a, url_b]), (''format'', JStr ''pdf'')]"
              "''pdf''" url_a "[url_b]" world_down s_0 JNull]
  by (simp add: dict_get_def world_down_def s_0_def lower_def lower_char_def)

lemma PDF_capitalisation: "''PDF'' \<in> set (capitalisations ''pdf'')"
  by code_simp

lemma Zip_capitalisation: "''Zip'' \<in> set (capitalisations ''zip'')"
  by code_simp

lemma zfill_1: "zfill 3 (str_nat (Suc 0)) = ''001''"
  by code_simp

text \<open>
  C10: the format of a request is matched without regard to case. \<^verbatim>\<open>convert\<close> lowercases
  the format string before it validates it, so a request whose format is \<^verbatim>\<open>pdf\<close>, \<^verbatim>\<open>ppt\<close> or
  \<^verbatim>\<open>zip\<close> in any capitalisation is not rejected with status 400: it is answered from the
  result of the PDF, the deck or the archive renderer, as with the format in small letters.
\<close>

theorem convert_format_case_insensitive:
  assumes "dict_get kvs ''format'' (JStr ''pdf'') = JStr f"
    and "dict_get kvs ''images'' (JArr []) = JArr (url # urls)"
    and "title = dict_get kvs ''title'' (JStr ''Presentation'')"
  shows
    "(f \<in> set (capitalisations ''pdf'') \<longrightarrow>
        convert w s (JObj kvs) =
          respond (create_pdf_from_images w s (JArr (url # urls)) title)
            ''application/pdf'' title ''.pdf'') \<and>
     (f \<in> set (capitalisations ''ppt'') \<longrightarrow>
        convert w s (JObj kvs) =
          respond (create_ppt_from_images w s (JArr (url # urls)) title)
            ''application/vnd.openxmlformats-officedocument.presentationml.presentation''
            title ''.pptx'') \<and>
     (f \<in> set (capitalisations ''zip'') \<longrightarrow>
        convert w s (JObj kvs) =
          respond (create_zip_from_images w s (JArr (url # urls)) title)
            ''application/zip'' title ''.zip'') \<and>
     (f \<in> set (capitalisations ''pdf'' @ capitalisations ''ppt'' @ capitalisations ''zip'') \<longrightarrow>
        status (fst (convert w s (JObj kvs))) \<noteq> 400)"
proof -
  have pdf: "convert w s (JObj kvs) =
          respond (create_pdf_from_images w s (JArr (url # urls)) title)
            ''application/pdf'' title ''.pdf''"
    if "f \<in> set (capitalisations ''pdf'')"
  proof -
    from that lower_capitalisations_pdf have l: "lower f = ''pdf''" by blast
    then have "lower f \<in> set [''pdf'', ''ppt'', ''zip'']" by simp
    from convert_dispatch [OF assms(1) this assms(2), of w s] l assms(3)
    show ?thesis by (simp add: render_def)
  qed
  have ppt: "convert w s (JObj kvs) =
          respond (create_ppt_from_images w s (JArr (url # urls)) title)
            ''application/vnd.openxmlformats-officedocument.presentationml.presentation''
            title ''.pptx''"
    if "f \<in> set (capitalisations ''ppt'')"
  proof -
    from that lower_capitalisations_ppt have l: "lower f = ''ppt''" by blast
    then have "lower f \<in> set [''pdf'', ''ppt'', ''zip'']" by simp
    from convert_dispatch [OF assms(1) this assms(2), of w s] l assms(3)
    show ?thesis by (simp add: render_def)
  qed
  have zip: "convert w s (JObj kvs) =
          respond (create_zip_from_images w s (JArr (url # urls)) title)
            ''application/zip'' title ''.zip''"
    if "f \<in> set (capitalisations ''zip'')"
  proof -
    from that lower_capitalisations_zip have l: "lower f = ''zip''" by blast
    then have "lower f \<in> set [''pdf'', ''ppt'', ''zip'']" by simp
    from convert_dispatch [OF assms(1) this assms(2), of w s] l assms(3)
    show ?thesis by (simp add: render_def)
  qed
  have "status (fst (convert w s (JObj kvs))) \<noteq> 400"
    if "f \<in> set (capitalisations ''pdf'' @ capitalisations ''ppt'' @ capitalisations ''zip'')"
  proof -
    from that consider "f \<in> set (capitalisations ''pdf'')" | "f \<in> set (capitalisations ''ppt'')"
      | "f \<in> set (capitalisations ''zip'')"
      by (auto simp del: capitalisations.simps)
    then show ?thesis
      by cases (simp_all only: pdf ppt zip respond_status not_False_eq_True)
  qed
  with pdf ppt zip show ?thesis by blast
qed

theorem convert_format_case_insensitive_witness:
  "''PDF'' \<in> set (capitalisations ''pdf'') \<and>
   fst (convert world_up s_0 (JObj [(''images'', JArr [url_a]), (''format'', JStr ''PDF'')])) =
     Send_file (Pdf \<lparr>pagesize = (1280, 720), ops = [DrawImage 0 0 0 1280 720, Save]\<rparr>)
       ''application/pdf'' (JStr ''Presentation'', ''.pdf'') \<and>
   ''Zip'' \<in> set (capitalisations ''zip'') \<and>
   fst (convert world_up s_0 (JObj [(''images'', JArr [url_a]), (''format'', JStr ''Zip'')])) =
     Send_file (Zip [(''slide_001.jpg'', Jpeg (Opened ''RGB'' (1280, 720) 0) (Some 95))])
       ''application/zip'' (JStr ''Presentation'', ''.zip'')"
proof -
  let ?pdf = "[(''images'', JArr [url_a]), (''format'', JStr ''PDF'')]"
  let ?zip = "[(''images'', JArr [url_a]), (''format'', JStr ''Zip'')]"
  have k: "dict_get ?pdf ''format'' (JStr ''pdf'') = JStr ''PDF''"
    "dict_get ?pdf ''images'' (JArr []) = JArr [url_a]"
    "JStr ''Presentation'' = dict_get ?pdf ''title'' (JStr ''Presentation'')"
    "dict_get ?zip ''format'' (JStr ''pdf'') = JStr ''Zip''"
    "dict_get ?zip ''images'' (JArr []) = JArr [url_a]"
    "JStr ''Presentation'' = dict_get ?zip ''title'' (JStr ''Presentation'')"
    by (simp_all add: dict_get_def)
  from convert_format_case_insensitive [OF k(1-3), of world_up s_0] PDF_capitalisation
  have "convert world_up s_0 (JObj ?pdf) =
          respond (create_pdf_from_images world_up s_0 (JArr [url_a]) (JStr ''Presentation''))
            ''application/pdf'' (JStr ''Presentation'') ''.pdf''"
    by blast
  then have pdf: "fst (convert world_up s_0 (JObj ?pdf)) =
     Send_file (Pdf \<lparr>pagesize = (1280, 720), ops = [DrawImage 0 0 0 1280 720, Save]\<rparr>)
       ''application/pdf'' (JStr ''Presentation'', ''.pdf'')"
    by (simp add: create_pdf_from_images_def download_image_def save_temp_jpeg_def jpeg_ok_def
          schedule_cleanup_def header_unsafe_def world_up_def s_0_def url_a_def Let_def)
  from convert_format_case_insensitive [OF k(4-6), of world_up s_0] Zip_capitalisation
  have "convert world_up s_0 (JObj ?zip) =
          respond (create_zip_from_images world_up s_0 (JArr [url_a]) (JStr ''Presentation''))
            ''application/zip'' (JStr ''Presentation'') ''.zip''"
    by blast
  then have zip: "fst (convert world_up s_0 (JObj ?zip)) =
     Send_file (Zip [(''slide_001.jpg'', Jpeg (Opened ''RGB'' (1280, 720) 0) (Some 95))])
       ''application/zip'' (JStr ''Presentation'', ''.zip'')"
    by (simp add: create_zip_from_images_def download_image_def jpeg_ok_def to_rgb_def zfill_1
          schedule_cleanup_def header_unsafe_def world_up_def s_0_def url_a_def Let_def)
  from pdf zip PDF_capitalisation Zip_capitalisation show ?thesis by simp
qed

subsection \<open>The deck renderer\<close>

text \<open>
  What the deck holds depends on line 147 alone. If a slide layout is left after it, the
  deck has one slide for each image fetched. If the layouts are gone, as the comment of
  line 146 announces, line 157 yields \<^verbatim>\<open>None\<close>, line 160 indexes the empty collection, the
  handler of line 186 swallows the IndexError, and no slide is ever added. If line 147
  raises, the renderer fails before it requests any image.
\<close>

lemma deck_slide_per_fetched_image:
  assumes "sld_layouts_clear w = Inr (l # ls)"
  shows "\<exists>prs s'. create_ppt_from_images w s (JArr urls) title = (Inr (Pptx prs), s') \<and>
           length (slides prs) = length (fetched_at w (length (net_log s)) 0 urls)"
proof -
  obtain s' prs where
    r: "ppt_loop w urls (s, \<lparr>slide_layouts = l # ls, slides = []\<rparr>) = (s', prs)"
    by (cases "ppt_loop w urls (s, \<lparr>slide_layouts = l # ls, slides = []\<rparr>)")
  from ppt_loop_count [of "(s, \<lparr>slide_layouts = l # ls, slides = []\<rparr>)" w urls 0] r
  have "length (slides prs) = length (fetched_at w (length (net_log s)) 0 urls)" by simp
  with assms r show ?thesis by (simp add: create_ppt_from_images_def)
qed

lemma deck_no_slide_without_layout:
  assumes "sld_layouts_clear w = Inr []"
  shows "create_ppt_from_images w s (JArr urls) title =
           (Inr (Pptx \<lparr>slide_layouts = [], slides = []\<rparr>), s\<lparr>net_log := net_log s @ urls\<rparr>)"
  using assms by (simp add: create_ppt_from_images_def ppt_loop_no_layout)

lemma deck_fails_when_clear_raises:
  assumes "sld_layouts_clear w = Inl e"
  shows "create_ppt_from_images w s images title = (Inl e, s)"
  using assms by (simp add: create_ppt_from_images_def)

text \<open>
  C1: for every request with format ppt and at least one image fetched, the deck has
  exactly one slide per image fetched.

  The code misses it. A request for one image, which is fetched, is answered with a deck
  of no slide when line 147 removes the slide layouts, and with status 500 when line 147
  raises.
\<close>

theorem deck_layouts_removed_no_slide:
  "fetched_at world_up 0 0 [url_a] = [(0, Opened ''RGB'' (1280, 720) 0)] \<and>
   fst (convert world_up s_0 (JObj [(''images'', JArr [url_a]), (''format'', JStr ''ppt'')])) =
     Send_file (Pptx \<lparr>slide_layouts = [], slides = []\<rparr>)
       ''application/vnd.openxmlformats-officedocument.presentationml.presentation''
       (JStr ''Presentation'', ''.pptx'') \<and>
   fst (convert world_clear_raises s_0
          (JObj [(''images'', JArr [url_a]), (''format'', JStr ''ppt'')])) =
     Error_json (Conversion_failed AttributeError) 500"
  by (simp add: convert_def dict_get_def render_def deck_no_slide_without_layout
        deck_fails_when_clear_raises world_up_def world_clear_raises_def lower_def
        lower_char_def header_unsafe_def Let_def)

text \<open>
  C8: for every request with format ppt in which every image fails to fetch, the deck
  renderer still returns a deck, with no slide, and the request succeeds.

  The code misses it, by the defect of C1. Line 147 raises before any image is requested,
  the exception is raised again at line 198, and the request is answered with status 500:
  no deck is returned and the images are not even requested.
\<close>

theorem deck_clear_raises_no_empty_deck:
  "net world_down_clear_raises 0 url_a = None \<and> net world_down_clear_raises 1 url_b = None \<and>
   create_ppt_from_images world_down_clear_raises s_0 (JArr [url_a, url_b])
     (JStr ''Presentation'') = (Inl AttributeError, s_0) \<and>
   convert world_down_clear_raises s_0
     (JObj [(''images'', JArr [url_a, url_b]), (''format'', JStr ''ppt'')]) =
     (Error_json (Conversion_failed AttributeError) 500, s_0)"
  by (simp add: convert_def dict_get_def render_def deck_fails_when_clear_raises
        world_down_clear_raises_def world_down_def lower_def lower_char_def)

subsection \<open>The archive renderer\<close>

lemma digit_char_0: "digit_char 0 = CHR ''0''"
  by code_simp

lemma str_nat_not_Nil: "str_nat n \<noteq> []"
  by (subst str_nat.simps) simp

text \<open>
  \<^verbatim>\<open>str(n).zfill(3)\<close> is the three decimal digits of \<open>n\<close> up to 999 and \<^verbatim>\<open>str(n)\<close> itself
  from 1000 on.
\<close>

lemma zfill_three_digits:
  assumes "n < 1000"
  shows "zfill 3 (str_nat n) = three_digits n"
proof -
  consider "n < 10" | "10 \<le> n" "n < 100" | "100 \<le> n" by linarith
  then show ?thesis
  proof cases
    case 1
    then show ?thesis
      by (subst str_nat.simps)
         (simp add: zfill_def three_digits_def numeral_3_eq_3 digit_char_0)
  next
    case 2
    then have "n div 10 < 10" by simp
    with 2 show ?thesis
      by (subst str_nat.simps, subst str_nat.simps)
         (simp add: zfill_def three_digits_def digit_char_0)
  next
    case 3
    with assms have a: "n div 10 \<ge> 10" "n div 10 < 100" "n div 10 div 10 < 10" by auto
    have "n div 10 div 10 = n div 100" by (simp add: div_mult2_eq)
    with 3 a show ?thesis
      by (subst str_nat.simps, subst str_nat.simps, subst str_nat.simps)
         (simp add: zfill_def three_digits_def)
  qed
qed

lemma zfill_long:
  assumes "1000 \<le> n"
  shows "zfill 3 (str_nat n) = str_nat n"
proof -
  from assms have a: "\<not> n < 10" "\<not> n div 10 < 10" by auto
  have "str_nat n = (str_nat (n div 10 div 10) @ [digit_char (n div 10 mod 10)]) @
          [digit_char (n mod 10)]"
    using a by (subst str_nat.simps, subst str_nat.simps) simp
  moreover have "1 \<le> length (str_nat (n div 10 div 10))"
    using str_nat_not_Nil [of "n div 10 div 10"] by (cases "str_nat (n div 10 div 10)") simp_all
  ultimately have "3 \<le> length (str_nat n)" by simp
  then show ?thesis by (simp add: zfill_def)
qed

lemma zfill_slide_name: "''slide_'' @ zfill 3 (str_nat n) @ ''.jpg'' = slide_name n"
  by (cases "n < 1000") (simp_all add: slide_name_def zfill_three_digits zfill_long)

lemma slide_001: "slide_name (Suc 0) = ''slide_001.jpg''"
  by code_simp


lemma create_zip_eq:
  "create_zip_from_images w s (JArr urls) title =
     (Inr (Zip (map slide_entry
                  (filter (\<lambda>p. jpeg_ok (to_rgb (snd p)))
                     (fetched_at w (length (net_log s)) 0 urls)))),
      s\<lparr>net_log := net_log s @ urls\<rparr>)"
proof -
  have "(\<lambda>p. (''slide_'' @ zfill 3 (str_nat (Suc (fst p))) @ ''.jpg'',
              Jpeg (to_rgb (snd p)) (Some 95))) = slide_entry"
    unfolding zfill_slide_name by (rule ext) (simp add: slide_entry_def)
  then show ?thesis
    unfolding create_zip_from_images_def zip_loop_eq by simp
qed




text \<open>
  The two halves of C7 that the code keeps: an image of mode RGBA is composited onto the
  white background, and no entry of the archive has an alpha channel, since every image
  written has one of the modes of the JPEG writer.
\<close>

lemma zip_rgba_composited:
  "im_mode img = ''RGBA'' \<Longrightarrow> composited_on_white img (to_rgb img)"
  by (simp add: to_rgb_def composited_on_white_def)

lemma zip_written_without_alpha:
  assumes "create_zip_from_images w s (JArr urls) title = (Inr (Zip z), s')"
    and "e \<in> set z"
  shows "\<exists>out. snd e = Jpeg out (Some 95) \<and>
           im_mode out \<in> set [''1'', ''L'', ''RGB'', ''RGBX'', ''CMYK'', ''YCbCr'']"
  using assms by (auto simp: create_zip_eq slide_entry_def jpeg_ok_def)

text \<open>
  C7: in the archive renderer every fetched image that carries an alpha channel is
  composited onto an opaque white background before it is encoded, and no entry has an
  alpha channel.

  The code misses the first half for an image of mode LA. Line 218 builds the white
  background, but line 219 passes the alpha band as the mask only when the mode is RGBA:
  the LA image is pasted without a mask, which ignores its alpha band and overwrites the
  background, so the entry is written from an image that is not composited.
\<close>

theorem zip_la_not_composited:
  "fst (create_zip_from_images world_alpha s_0 (JArr [url_a]) JNull) =
     Inr (Zip [(''slide_001.jpg'',
                Jpeg (Pasted (New ''RGB'' (1280, 720) (255, 255, 255))
                        (Opened ''LA'' (1280, 720) 0) None) (Some 95))]) \<and>
   \<not> composited_on_white (Opened ''LA'' (1280, 720) 0)
       (Pasted (New ''RGB'' (1280, 720) (255, 255, 255)) (Opened ''LA'' (1280, 720) 0) None)"
  using slide_001
  by (simp add: create_zip_eq slide_entry_def world_alpha_def s_0_def to_rgb_def jpeg_ok_def
        composited_on_white_def)

subsection \<open>The PDF renderer\<close>







subsection \<open>The sweeper\<close>

lemma release_simps:
  "cleanup_queue (release w it s) = cleanup_queue s"
  "now (release w it s) = now s"
  by (simp_all add: release_def split: option.splits)

lemma fold_release_queue: "cleanup_queue (fold (release w) its s) = cleanup_queue s"
  by (induction its arbitrary: s) (simp_all add: release_simps)

lemma fold_remove1_filter:
  "\<forall>y \<in> set ys. \<not> P y \<Longrightarrow>
   fold remove1 (filter P xs) (ys @ xs) = ys @ filter (\<lambda>x. \<not> P x) xs"
proof (induction xs arbitrary: ys)
  case Nil
  show ?case by simp
next
  case (Cons x xs)
  show ?case
  proof (cases "P x")
    case True
    with Cons.prems have "x \<notin> set ys" by blast
    then have "remove1 x (ys @ x # xs) = ys @ xs" by (simp add: remove1_append)
    with True Cons.IH [OF Cons.prems] show ?thesis by simp
  next
    case False
    with Cons.prems have "\<forall>y \<in> set (ys @ [x]). \<not> P y" by simp
    from Cons.IH [OF this] False show ?thesis by simp
  qed
qed

text \<open>
  One pass leaves in the queue the entries that are not stale at its clock reading, whatever
  the releases did.
\<close>

lemma cleanup_pass_queue:
  "cleanup_queue (cleanup_pass w s) = filter (\<lambda>it. \<not> stale (now s) it) (cleanup_queue s)"
  using fold_remove1_filter [of "[]" "stale (now s)" "cleanup_queue s"]
  by (simp add: cleanup_pass_def Let_def fold_release_queue)

lemma cleanup_resources_queue:
  "cleanup_queue (cleanup_resources w ts s) =
     filter (\<lambda>it. \<forall>t \<in> set ts. \<not> stale t it) (cleanup_queue s)"
proof (induction ts arbitrary: s)
  case Nil
  show ?case by simp
next
  case (Cons t ts)
  have "filter (\<lambda>it. \<forall>u \<in> set ts. \<not> stale u it) (filter (\<lambda>it. \<not> stale t it) (cleanup_queue s)) =
        filter (\<lambda>it. \<forall>u \<in> set (t # ts). \<not> stale u it) (cleanup_queue s)"
    by (auto intro: filter_cong)
  then show ?case by (simp add: Cons.IH cleanup_pass_queue)
qed

text \<open>Releasing never creates a file and never reopens a buffer.\<close>

lemma release_files: "set (files (release w it s)) \<subseteq> set (files s)"
  by (auto simp: release_def split: option.splits)

lemma release_closed: "set (closed s) \<subseteq> set (closed (release w it s))"
  by (auto simp: release_def split: option.splits)

lemma fold_release_files: "set (files (fold (release w) its s)) \<subseteq> set (files s)"
proof (induction its arbitrary: s)
  case Nil
  show ?case by simp
next
  case (Cons a its)
  from Cons.IH [of "release w a s"] release_files [of w a s] show ?case by auto
qed

lemma fold_release_closed: "set (closed s) \<subseteq> set (closed (fold (release w) its s))"
proof (induction its arbitrary: s)
  case Nil
  show ?case by simp
next
  case (Cons a its)
  from Cons.IH [of "release w a s"] release_closed [of s w a] show ?case by auto
qed

lemma release_file_gone:
  "rtype it = ''file'' \<Longrightarrow> \<not> release_raises w it \<Longrightarrow> \<not> path_exists (release w it s) (path it)"
  by (auto simp: release_def path_exists_def split: option.splits)

lemma release_buffer_closed:
  "rtype it = ''buffer'' \<Longrightarrow> \<not> release_raises w it \<Longrightarrow> buffer it = Some b \<Longrightarrow>
   b \<in> set (closed (release w it s))"
  by (auto simp: release_def split: option.splits)

lemma fold_release_file_gone:
  assumes "it \<in> set its" and "rtype it = ''file''" and "\<not> release_raises w it"
  shows "\<not> path_exists (fold (release w) its s) (path it)"
  using assms(1)
proof (induction its arbitrary: s)
  case Nil
  then show ?case by simp
next
  case (Cons a its)
  show ?case
  proof (cases "a = it")
    case True
    from release_file_gone [OF assms(2,3), of s] fold_release_files [of w its "release w it s"]
    show ?thesis unfolding True by (auto simp: path_exists_def split: option.splits)
  next
    case False
    with Cons.prems have "it \<in> set its" by simp
    from Cons.IH [OF this, of "release w a s"] show ?thesis by simp
  qed
qed

lemma fold_release_buffer_closed:
  assumes "it \<in> set its" and "rtype it = ''buffer''" and "\<not> release_raises w it"
    and "buffer it = Some b"
  shows "b \<in> set (closed (fold (release w) its s))"
  using assms(1)
proof (induction its arbitrary: s)
  case Nil
  then show ?case by simp
next
  case (Cons a its)
  show ?case
  proof (cases "a = it")
    case True
    from release_buffer_closed [OF assms(2,3,4), of s]
      fold_release_closed [of "release w it s" w its]
    show ?thesis unfolding True by auto
  next
    case False
    with Cons.prems have "it \<in> set its" by simp
    from Cons.IH [OF this, of "release w a s"] show ?thesis by simp
  qed
qed

lemma cleanup_pass_storage:
  assumes "it \<in> set (cleanup_queue s)" and "stale (now s) it" and "\<not> release_raises w it"
  shows "rtype it = ''file'' \<Longrightarrow> \<not> path_exists (cleanup_pass w s) (path it)"
    and "rtype it = ''buffer'' \<Longrightarrow> buffer it = Some b \<Longrightarrow> b \<in> set (closed (cleanup_pass w s))"
proof -
  from assms(1,2) have m: "it \<in> set (filter (stale (now s)) (cleanup_queue s))" by simp
  show "\<not> path_exists (cleanup_pass w s) (path it)" if "rtype it = ''file''"
    using fold_release_file_gone [OF m that assms(3), of s]
    by (simp add: cleanup_pass_def Let_def path_exists_def split: option.splits)
  show "b \<in> set (closed (cleanup_pass w s))" if "rtype it = ''buffer''" "buffer it = Some b"
    using fold_release_buffer_closed [OF m that(1) assms(3) that(2), of s]
    by (simp add: cleanup_pass_def Let_def)
qed

text \<open>
  Among passes that read the clock exactly 60 seconds apart, the first at or before the
  registration, one reads it later than \<open>T + 300\<close> and not later than \<open>T + 360\<close>.
\<close>

lemma every_60_hits:
  assumes "p0 \<le> T" and "T + 360 < p0 + 60 * int n"
  shows "\<exists>t \<in> set (every_60 p0 n). t \<le> T + 300 + 60 \<and> t - T > 300"
proof -
  define k where "k = nat ((T + 300 - p0) div 60) + 1"
  from assms(1) have "int k = (T + 300 - p0) div 60 + 1" by (simp add: k_def)
  then have b: "60 * int k > T + 300 - p0" "60 * int k \<le> T + 300 - p0 + 60" by presburger+
  with assms(2) have "60 * int k < 60 * int n" by linarith
  then have "k < n" by simp
  then have "p0 + 60 * int k \<in> set (every_60 p0 n)" by (auto simp: every_60_def)
  moreover from b have "p0 + 60 * int k \<le> T + 300 + 60" "p0 + 60 * int k - T > 300" by linarith+
  ultimately show ?thesis by blast
qed

text \<open>
  C9, as the code has it. A pass of the sweeper removes from the queue exactly the entries
  that are more than 300 seconds old at its clock reading, also those whose release raised;
  so, over any sequence of passes, an entry registered at time \<open>T\<close> leaves the queue with the
  first pass that reads the clock later than \<open>T + 300\<close>. The storage of such an entry is
  released in that pass unless the release raises: the file is gone, the buffer closed.
  When the passes read the clock exactly 60 seconds apart, the first of them at or before
  \<open>T\<close>, the entry is out of the queue by \<open>T + 300 + 60\<close>.
\<close>

theorem sweeper_reclaims:
  "cleanup_queue (cleanup_pass w s) =
     filter (\<lambda>it. now s - created it \<le> 300) (cleanup_queue s) \<and>
   cleanup_queue (cleanup_resources w ts s) =
     filter (\<lambda>it. \<forall>t \<in> set ts. t - created it \<le> 300) (cleanup_queue s) \<and>
   (it \<in> set (cleanup_queue s) \<and> now s - created it > 300 \<and> \<not> release_raises w it \<longrightarrow>
      (rtype it = ''file'' \<longrightarrow> \<not> path_exists (cleanup_pass w s) (path it)) \<and>
      (\<forall>b. rtype it = ''buffer'' \<and> buffer it = Some b \<longrightarrow> b \<in> set (closed (cleanup_pass w s)))) \<and>
   (p0 \<le> created it \<and> created it + 360 < p0 + 60 * int n \<longrightarrow>
      reclaimed_by w (every_60 p0 n) s it (created it + 300 + 60))"
proof -
  have pass: "cleanup_queue (cleanup_pass w s) =
      filter (\<lambda>it. now s - created it \<le> 300) (cleanup_queue s)"
    by (simp add: cleanup_pass_queue stale_def not_less)
  have passes: "cleanup_queue (cleanup_resources w ts s) =
      filter (\<lambda>it. \<forall>t \<in> set ts. t - created it \<le> 300) (cleanup_queue s)"
    by (simp add: cleanup_resources_queue stale_def not_less)
  have storage: "(rtype it = ''file'' \<longrightarrow> \<not> path_exists (cleanup_pass w s) (path it)) \<and>
      (\<forall>b. rtype it = ''buffer'' \<and> buffer it = Some b \<longrightarrow> b \<in> set (closed (cleanup_pass w s)))"
    if "it \<in> set (cleanup_queue s)" "now s - created it > 300" "\<not> release_raises w it"
  proof -
    from that(2) have "stale (now s) it" by (simp add: stale_def)
    from cleanup_pass_storage [OF that(1) this that(3)] show ?thesis by blast
  qed
  have "reclaimed_by w (every_60 p0 n) s it (created it + 300 + 60)"
    if "p0 \<le> created it" "created it + 360 < p0 + 60 * int n"
  proof -
    from every_60_hits [OF that] obtain t where
      "t \<in> set (every_60 p0 n)" "t \<le> created it + 300 + 60" "stale t it"
      by (auto simp: stale_def)
    then show ?thesis
      by (auto simp: reclaimed_by_def cleanup_resources_queue)
  qed
  with pass passes storage show ?thesis by blast
qed

text \<open>
  The file registered at time 5 and the passes at 0, 60, \<open>\<dots>\<close>, 420: the pass at 360
  removes the entry and unlinks the file; when unlinking raises, the entry is removed all
  the same.
\<close>

theorem sweeper_reclaims_witness:
  "file_item_5 \<in> set (cleanup_queue (s_registered\<lparr>now := 360\<rparr>)) \<and>
   now (s_registered\<lparr>now := 360\<rparr>) - created file_item_5 > 300 \<and>
   \<not> release_raises world_down file_item_5 \<and> rtype file_item_5 = ''file'' \<and>
   \<not> path_exists (cleanup_pass world_down (s_registered\<lparr>now := 360\<rparr>)) (path file_item_5) \<and>
   release_raises world_release_raises file_item_5 \<and>
   cleanup_queue (cleanup_pass world_release_raises (s_registered\<lparr>now := 360\<rparr>)) = [] \<and>
   cleanup_queue (cleanup_resources world_release_raises [240, 300, 360] s_registered) = [] \<and>
   0 \<le> created file_item_5 \<and> created file_item_5 + 360 < 0 + 60 * int 8 \<and>
   reclaimed_by world_down (every_60 0 8) s_registered file_item_5 365"
proof -
  let ?s = "s_registered\<lparr>now := 360\<rparr>"
  have h: "file_item_5 \<in> set (cleanup_queue ?s)" "now ?s - created file_item_5 > 300"
    "\<not> release_raises world_down file_item_5" "rtype file_item_5 = ''file''"
    "release_raises world_release_raises file_item_5"
    "0 \<le> created file_item_5" "created file_item_5 + 360 < 0 + 60 * int 8"
    by (simp_all add: s_registered_def file_item_5_def world_down_def world_release_raises_def)
  from sweeper_reclaims [of world_down ?s "[]" file_item_5 0 8] h
  have a: "\<not> path_exists (cleanup_pass world_down ?s) (path file_item_5)"
    by blast
  from sweeper_reclaims [of world_release_raises ?s "[]" file_item_5 0 8]
  have "cleanup_queue (cleanup_pass world_release_raises ?s) =
          filter (\<lambda>it. now ?s - created it \<le> 300) (cleanup_queue ?s)"
    by blast
  then have b: "cleanup_queue (cleanup_pass world_release_raises ?s) = []"
    by (simp add: s_registered_def file_item_5_def)
  from sweeper_reclaims [of world_release_raises s_registered "[240, 300, 360]" file_item_5 0 8]
  have "cleanup_queue (cleanup_resources world_release_raises [240, 300, 360] s_registered) =
          filter (\<lambda>it. \<forall>t \<in> set [240, 300, 360]. t - created it \<le> 300)
            (cleanup_queue s_registered)"
    by blast
  then have c: "cleanup_queue (cleanup_resources world_release_raises [240, 300, 360]
                  s_registered) = []"
    by (simp add: s_registered_def file_item_5_def)
  from sweeper_reclaims [of world_down s_registered "[]" file_item_5 0 8] h(6,7)
  have "reclaimed_by world_down (every_60 0 8) s_registered file_item_5
          (created file_item_5 + 300 + 60)"
    by blast
  then have d: "reclaimed_by world_down (every_60 0 8) s_registered file_item_5 365"
    by (simp add: file_item_5_def)
  from h a b c d show ?thesis by simp
qed

text \<open>
  C9, as the specification words it, fails in two ways. \<^verbatim>\<open>time.sleep(60)\<close> follows each
  pass, so the passes are at least 60 seconds apart and further apart when a pass takes
  time: with passes 61 seconds apart, the entry registered at time 5 is still in the queue
  at the deadline 365, the pass at 305 having found it exactly 300 seconds old. And when
  unlinking raises, the entry is removed and the file is never unlinked.
\<close>

theorem sweeper_misses_deadline:
  "sleeps_60 [0, 61, 122, 183, 244, 305, 366] \<and>
   created file_item_5 + 300 + 60 = 365 \<and>
   \<not> reclaimed_by world_down [0, 61, 122, 183, 244, 305, 366] s_registered file_item_5 365 \<and>
   cleanup_queue (cleanup_resources world_release_raises (every_60 0 8) s_registered) = [] \<and>
   path_exists (cleanup_resources world_release_raises (every_60 0 8) s_registered) (Some 0)"
  by code_simp

end
